theory Spec2Isabelle
  imports
    Complex_Main
    "HOL-Library.Sublist"
    "HOL-Library.Multiset"
    "HOL-Library.Product_Lexorder"
begin

section \<open>The data-preparation pipeline of streamlit\_app.py\<close>

text \<open>
  The script is one top-level pipeline over a pandas DataFrame (lines 26 to 64 of
  \<^verbatim>\<open>src/streamlit_app.py\<close>); everything after line 64 renders charts from the two
  tables the pipeline has produced. The embedding follows the script line by line.
  Each pandas call is a HOL function of its own, named after the call, that computes
  what the pandas documentation states for the arguments the script passes.
\<close>

subsection \<open>Cells, timestamps, frames\<close>

text \<open>
  A cell as \<^verbatim>\<open>pd.read_csv\<close> delivers it: a number (float64 and int64 are both read as
  reals here; rounding is outside the model), a string of an object column, or the
  missing value.
\<close>

datatype cell = Num real | Str string | NaN

text \<open>
  A timestamp is a calendar day (its proleptic ordinal) and the nanoseconds elapsed in
  that day; the order is the lexicographic one, which is the order of the instants.
  \<^verbatim>\<open>Timestamp.date()\<close> is the first component.
\<close>

type_synonym date = int
type_synonym timestamp = "date \<times> nat"

definition date_of :: "timestamp \<Rightarrow> date" where
  "date_of t = fst t"

text \<open>
  The dtype of a column: a numeric one (int64, float64) or a text one (object, str).
  pandas decides by the dtype, not by the values a column still holds, whether it can
  take the mean of a column.
\<close>

datatype dtype = Numeric | Text

text \<open>
  A DataFrame, row-wise: the column labels, the dtype of every column, and for every
  row its index label and its cells in column order. The type of the index labels is
  a parameter: \<open>nat\<close> for the default RangeIndex, \<open>timestamp\<close> for a DatetimeIndex,
  \<open>date\<close> for the index of the daily table.
\<close>

datatype 'i frame =
  Frame (columns: "string list") (dtypes: "dtype list") (rows: "('i \<times> cell list) list")

fun is_str :: "cell \<Rightarrow> bool" where
  "is_str (Str s) = True"
| "is_str c = False"

text \<open>Reading a cell by position; \<^verbatim>\<open>read_csv\<close> pads a short record with missing values.\<close>

definition cell_at :: "cell list \<Rightarrow> nat \<Rightarrow> cell" where
  "cell_at r k = (if k < length r then r ! k else NaN)"

text \<open>Position of the first column carrying a label (label-based access \<^verbatim>\<open>df[c]\<close>).\<close>

fun col_pos :: "string \<Rightarrow> string list \<Rightarrow> nat" where
  "col_pos c [] = 0"
| "col_pos c (x # xs) = (if x = c then 0 else Suc (col_pos c xs))"

text \<open>Boolean-mask selection, \<^verbatim>\<open>xs[mask]\<close>.\<close>

definition select :: "bool list \<Rightarrow> 'a list \<Rightarrow> 'a list" where
  "select keep xs = map snd (filter fst (zip keep xs))"

definition drop_col :: "nat \<Rightarrow> 'a list \<Rightarrow> 'a list" where
  "drop_col k xs = take k xs @ drop (Suc k) xs"

subsection \<open>Python strings\<close>

text \<open>
  \<^verbatim>\<open>str.lower()\<close> on the ASCII letters. The patterns the script searches for are ASCII,
  and no non-ASCII letter lowers to a string that completes one of them, so the
  bytes above 127 are left as they are.
\<close>

definition lower_char :: "char \<Rightarrow> char" where
  "lower_char c =
     (case map_of (zip ''ABCDEFGHIJKLMNOPQRSTUVWXYZ'' ''abcdefghijklmnopqrstuvwxyz'') c of
        Some l \<Rightarrow> l
      | None \<Rightarrow> c)"

definition lower :: "string \<Rightarrow> string" where
  "lower s = map lower_char s"

text \<open>The substring test \<^verbatim>\<open>x in s\<close>.\<close>

fun is_in :: "string \<Rightarrow> string \<Rightarrow> bool" where
  "is_in x [] = (x = [])"
| "is_in x (c # cs) = (prefix x (c # cs) \<or> is_in x cs)"

text \<open>\<^verbatim>\<open>str(n)\<close> for a natural number.\<close>

function str_nat :: "nat \<Rightarrow> string" where
  "str_nat n =
     (if n < 10 then [''0123456789'' ! n]
      else str_nat (n div 10) @ [''0123456789'' ! (n mod 10)])"
  by pat_completeness auto
termination
  by (relation "measure id") auto

declare str_nat.simps [simp del]

subsection \<open>Lines 28 to 30: the loader\<close>

text \<open>
  The uploaded file after tokenisation: the header names and the records, a record
  being the cells under the header's columns. The model is of the files that
  \<^verbatim>\<open>pd.read_csv\<close> loads on the default index: the header has a field, and no record
  has more fields than the header. On other files line 28 raises (EmptyDataError,
  ParserError) or takes the surplus leading fields as row labels; the script has no
  handler, and those runs are not part of the model.
\<close>

datatype csv = Csv (header: "string list") (records: "cell list list")

text \<open>
  The column names of \<^verbatim>\<open>read_csv\<close>. An empty header field is named
  \<^verbatim>\<open>Unnamed: i\<close> after its position. Then the names are made unique, the named
  fields first and the unnamed ones after them, with a count for every name: a name
  met for the first time stays; a name \<open>X\<close> met again becomes \<open>X.k\<close>, where
  \<open>k\<close> is the first number from the count of \<open>X\<close> on for which \<open>X.k\<close> is not a name
  of the header (the header has fewer names than the candidates tried, so there is
  one), and the count of \<open>X\<close> moves past \<open>k\<close>.
\<close>

definition unnamed :: "string list \<Rightarrow> string list" where
  "unnamed hs = map (\<lambda>(i, h). if h = [] then ''Unnamed: '' @ str_nat i else h) (enumerate 0 hs)"

definition col_loop_order :: "string list \<Rightarrow> nat list" where
  "col_loop_order hs =
     filter (\<lambda>i. hs ! i \<noteq> []) [0..<length hs] @ filter (\<lambda>i. hs ! i = []) [0..<length hs]"

definition suffixed :: "string \<Rightarrow> nat \<Rightarrow> string" where
  "suffixed c k = c @ ''.'' @ str_nat k"

fun next_free :: "string list \<Rightarrow> string \<Rightarrow> nat \<Rightarrow> nat \<Rightarrow> nat" where
  "next_free hs c k 0 = k"
| "next_free hs c k (Suc n) =
     (if suffixed c k \<in> set hs then next_free hs c (Suc k) n else k)"

definition count_of :: "(string \<times> nat) list \<Rightarrow> string \<Rightarrow> nat" where
  "count_of counts c = (case map_of counts c of None \<Rightarrow> 0 | Some n \<Rightarrow> n)"

definition dedup_step ::
  "nat \<Rightarrow> string list \<times> (string \<times> nat) list \<Rightarrow> string list \<times> (string \<times> nat) list" where
  "dedup_step i s =
     (let hs = fst s; counts = snd s; col = hs ! i; cur = count_of counts col
      in if cur = 0 then (hs, (col, 1) # counts)
         else (let k = next_free hs col cur (length hs); new = suffixed col k
               in (hs[i := new], (new, 1) # (col, Suc k) # counts)))"

definition mangle_dupe_cols :: "string list \<Rightarrow> string list" where
  "mangle_dupe_cols hs = fst (fold dedup_step (col_loop_order hs) (unnamed hs, []))"

text \<open>
  The dtype \<^verbatim>\<open>read_csv\<close> infers: a column with a token that is no number is a text
  column (and holds every token as a string), any other column is numeric.
\<close>

definition infer_dtype :: "cell list list \<Rightarrow> nat \<Rightarrow> dtype" where
  "infer_dtype rs k = (if \<exists>r \<in> set rs. is_str (cell_at r k) then Text else Numeric)"

text \<open>The rows get the default index 0, 1, 2, ...\<close>

definition read_csv :: "csv \<Rightarrow> nat frame" where
  "read_csv f =
     (let hs = mangle_dupe_cols (header f)
      in Frame hs (map (infer_dtype (records f)) [0..<length hs]) (enumerate 0 (records f)))"

text \<open>
  \<^verbatim>\<open>Index.duplicated()\<close> with the default \<^verbatim>\<open>keep="first"\<close>: an entry is marked
  when an equal entry stands to its left.
\<close>

fun duplicated :: "'a list \<Rightarrow> 'a list \<Rightarrow> bool list" where
  "duplicated seen [] = []"
| "duplicated seen (c # cs) = (c \<in> set seen) # duplicated (c # seen) cs"

text \<open>\<^verbatim>\<open>df.loc[:, mask]\<close>: the columns where the mask holds, in every row.\<close>

definition loc_columns :: "bool list \<Rightarrow> 'i frame \<Rightarrow> 'i frame" where
  "loc_columns keep df =
     Frame (select keep (columns df)) (select keep (dtypes df))
       (map (\<lambda>(i, r). (i, select keep r)) (rows df))"

text \<open>Line 29 alone, on any frame.\<close>

definition drop_duplicated :: "'i frame \<Rightarrow> 'i frame" where
  "drop_duplicated df = loc_columns (map Not (duplicated [] (columns df))) df"

text \<open>Lines 28 and 29.\<close>

definition loader :: "csv \<Rightarrow> nat frame" where
  "loader f = drop_duplicated (read_csv f)"

subsection \<open>The parts of pandas and numpy the script relies on\<close>

text \<open>
  Four library behaviours are not fixed by the script and are parameters of the model:
  \<^item> \<open>to_datetime col c\<close>: the timestamp \<^verbatim>\<open>pd.to_datetime(col, errors="coerce")\<close>
    gives the entry \<open>c\<close> of the column \<open>col\<close>, \<open>None\<close> for NaT (the format may be
    inferred from the whole column, so the column is an argument);
  \<^item> \<open>argsort ks\<close>: the indexer \<^verbatim>\<open>sort_values\<close> takes from numpy's argsort with the
    default \<^verbatim>\<open>kind="quicksort"\<close>. pandas documents that only \<^verbatim>\<open>mergesort\<close> and
    \<^verbatim>\<open>stable\<close> are stable, so the order among equal keys is not fixed;
  \<^item> \<open>to_numeric s\<close>: the number \<^verbatim>\<open>pd.to_numeric\<close> reads from the string \<open>s\<close>,
    \<open>None\<close> when it reads none;
  \<^item> \<open>float_mean xs\<close>: the float64 value \<^verbatim>\<open>mean\<close> computes from the values \<open>xs\<close>
    of a non-empty group, which is their arithmetic mean up to rounding. A cell holds
    the real number its float64 or int64 value stands for.
\<close>

record pandas =
  to_datetime :: "cell list \<Rightarrow> cell \<Rightarrow> timestamp option"
  argsort :: "timestamp list \<Rightarrow> nat list"
  to_numeric :: "string \<Rightarrow> real option"
  float_mean :: "real list \<Rightarrow> real"


subsection \<open>Lines 31 to 42: the temporal indexer\<close>

definition is_date_name :: "string \<Rightarrow> bool" where
  "is_date_name c \<longleftrightarrow> is_in ''date'' (lower c) \<or> is_in ''time'' (lower c)"

text \<open>Lines 31 to 35: the loop over the columns stops at the first match.\<close>

definition find_date_col :: "string list \<Rightarrow> string option" where
  "find_date_col cs = find is_date_name cs"

text \<open>Line 37: every row paired with the parsed value of its cell in column \<open>k\<close>.\<close>

definition parse_dates ::
  "pandas \<Rightarrow> nat \<Rightarrow> ('i \<times> cell list) list \<Rightarrow> (timestamp option \<times> cell list) list" where
  "parse_dates lib k rs =
     (let col = map (\<lambda>(i, r). cell_at r k) rs
      in map (\<lambda>(i, r). (to_datetime lib col (cell_at r k), r)) rs)"

text \<open>Line 38: \<^verbatim>\<open>dropna(subset=[date_col])\<close> removes the rows whose date is NaT.\<close>

definition dropna_date :: "(timestamp option \<times> 'a) list \<Rightarrow> (timestamp \<times> 'a) list" where
  "dropna_date xs = map (\<lambda>(t, x). (the t, x)) (filter (\<lambda>(t, x). t \<noteq> None) xs)"

text \<open>Line 39: \<^verbatim>\<open>sort_values(by=date_col)\<close> takes the rows in the order argsort gives.\<close>

definition sort_values :: "pandas \<Rightarrow> (timestamp \<times> 'a) list \<Rightarrow> (timestamp \<times> 'a) list" where
  "sort_values lib xs = map ((!) xs) (argsort lib (map fst xs))"

text \<open>
  Line 40: \<^verbatim>\<open>set_index(date_col)\<close> makes the dates the index and, with the default
  \<^verbatim>\<open>drop=True\<close>, removes the column.
\<close>

definition set_index ::
  "nat \<Rightarrow> string list \<Rightarrow> dtype list \<Rightarrow> (timestamp \<times> cell list) list \<Rightarrow> timestamp frame" where
  "set_index k cs ts xs =
     Frame (drop_col k cs) (drop_col k ts) (map (\<lambda>(t, r). (t, drop_col k r)) xs)"

text \<open>
  The table after line 42: still on its default index when no date column was found
  (line 42 then shows a warning), otherwise indexed by the named date column.
\<close>

datatype table = Degraded "nat frame" | TimeIndexed string "timestamp frame"

definition temporal_indexer :: "pandas \<Rightarrow> nat frame \<Rightarrow> table" where
  "temporal_indexer lib df =
     (case find_date_col (columns df) of
        None \<Rightarrow> Degraded df
      | Some date_col \<Rightarrow>
          (let k = col_pos date_col (columns df)
           in TimeIndexed date_col
                (set_index k (columns df) (dtypes df)
                   (sort_values lib (dropna_date (parse_dates lib k (rows df)))))))"

fun table_columns :: "table \<Rightarrow> string list" where
  "table_columns (Degraded df) = columns df"
| "table_columns (TimeIndexed c df) = columns df"

subsection \<open>Lines 44 to 52: candidate pollutants and the selection\<close>

definition is_pollutant_name :: "string \<Rightarrow> bool" where
  "is_pollutant_name c \<longleftrightarrow>
     list_ex (\<lambda>x. is_in x (lower c)) [''pm2'', ''pm10'', ''no2'', ''so2'', ''co'', ''o3'']"

definition pollutant_cols :: "string list \<Rightarrow> string list" where
  "pollutant_cols cs = filter is_pollutant_name cs"

text \<open>
  What the user does in the sidebar: the pollutants picked in the multiselect
  (\<open>None\<close> while the widget is untouched) and the two dates set in the date inputs.
\<close>

record ui =
  picks :: "string list option"
  start_date :: date
  end_date :: date

text \<open>
  \<^verbatim>\<open>st.multiselect(label, options, default)\<close> returns the default until the user picks,
  and then the picked options; it offers nothing but its options.
\<close>

definition multiselect :: "string list option \<Rightarrow> string list \<Rightarrow> string list \<Rightarrow> string list" where
  "multiselect chosen opts dflt =
     (case chosen of None \<Rightarrow> dflt | Some ps \<Rightarrow> filter (\<lambda>p. p \<in> set opts) ps)"

subsection \<open>Lines 53 to 58: the date range\<close>

datatype error = AttributeError | ValueError | TypeError

text \<open>
  Lines 53 and 54 evaluate \<^verbatim>\<open>df.index.min().date()\<close> and \<^verbatim>\<open>df.index.max().date()\<close> as
  the defaults of the date inputs. The minimum of a default index is an integer (a
  float for an empty one), which has no attribute \<^verbatim>\<open>date\<close>; the minimum of an empty
  DatetimeIndex is NaT, whose \<^verbatim>\<open>date()\<close> is NaT again (\<open>None\<close> here).
\<close>

fun index_min_date :: "table \<Rightarrow> error + date option" where
  "index_min_date (Degraded df) = Inl AttributeError"
| "index_min_date (TimeIndexed c df) =
     Inr (if rows df = [] then None else Some (Min (set (map (date_of \<circ> fst) (rows df)))))"

fun index_max_date :: "table \<Rightarrow> error + date option" where
  "index_max_date (Degraded df) = Inl AttributeError"
| "index_max_date (TimeIndexed c df) =
     Inr (if rows df = [] then None else Some (Max (set (map (date_of \<circ> fst) (rows df)))))"

text \<open>
  \<^verbatim>\<open>st.sidebar.date_input(label, value)\<close>: raises ValueError when the default value is
  NaT, and otherwise returns the date the user has set in the widget.
\<close>

definition date_input :: "date option \<Rightarrow> date \<Rightarrow> error + date" where
  "date_input dflt chosen = (case dflt of None \<Rightarrow> Inl ValueError | Some d \<Rightarrow> Inr chosen)"

text \<open>Line 55: the rows whose date lies between the two dates; the columns are not touched.\<close>

definition date_filter :: "date \<Rightarrow> date \<Rightarrow> timestamp frame \<Rightarrow> timestamp frame" where
  "date_filter s e df =
     Frame (columns df) (dtypes df)
       (filter (\<lambda>(t, r). s \<le> date_of t \<and> date_of t \<le> e) (rows df))"

text \<open>\<^verbatim>\<open>df.empty\<close>: some axis has length 0.\<close>

definition empty :: "'i frame \<Rightarrow> bool" where
  "empty df \<longleftrightarrow> rows df = [] \<or> columns df = []"

subsection \<open>Lines 60 and 61: numeric coercion and the validity gate\<close>

fun to_numeric_cell :: "pandas \<Rightarrow> cell \<Rightarrow> cell" where
  "to_numeric_cell lib (Num x) = Num x"
| "to_numeric_cell lib (Str s) = (case to_numeric lib s of Some x \<Rightarrow> Num x | None \<Rightarrow> NaN)"
| "to_numeric_cell lib NaN = NaN"

text \<open>Line 60 in one row: the cells under a selected label are replaced, the others stay.\<close>

fun coerce_row :: "pandas \<Rightarrow> string list \<Rightarrow> string list \<Rightarrow> cell list \<Rightarrow> cell list" where
  "coerce_row lib sel (c # cs) (v # vs) =
     (if c \<in> set sel then to_numeric_cell lib v else v) # coerce_row lib sel cs vs"
| "coerce_row lib sel cs vs = vs"

text \<open>The columns under a selected label become numeric columns.\<close>

fun coerce_dtypes :: "string list \<Rightarrow> string list \<Rightarrow> dtype list \<Rightarrow> dtype list" where
  "coerce_dtypes sel (c # cs) (t # ts) =
     (if c \<in> set sel then Numeric else t) # coerce_dtypes sel cs ts"
| "coerce_dtypes sel cs ts = ts"

definition coerce :: "pandas \<Rightarrow> string list \<Rightarrow> 'i frame \<Rightarrow> 'i frame" where
  "coerce lib sel df =
     Frame (columns df) (coerce_dtypes sel (columns df) (dtypes df))
       (map (\<lambda>(i, r). (i, coerce_row lib sel (columns df) r)) (rows df))"

text \<open>
  Line 61: \<^verbatim>\<open>dropna(subset=selected, how="all")\<close> keeps a row when one of its selected
  cells is not missing.
\<close>

definition dropna_all :: "string list \<Rightarrow> 'i frame \<Rightarrow> 'i frame" where
  "dropna_all sel df =
     Frame (columns df) (dtypes df)
       (filter (\<lambda>(i, r). \<exists>c \<in> set sel. cell_at r (col_pos c (columns df)) \<noteq> NaN) (rows df))"

subsection \<open>Line 62: daily resampling\<close>

text \<open>The numbers among some cells (\<^verbatim>\<open>mean\<close> skips the missing values).\<close>

fun numbers :: "cell list \<Rightarrow> real list" where
  "numbers [] = []"
| "numbers (Num x # cs) = x # numbers cs"
| "numbers (c # cs) = numbers cs"

text \<open>The rows of one calendar day.\<close>

definition day_rows :: "date \<Rightarrow> (timestamp \<times> cell list) list \<Rightarrow> cell list list" where
  "day_rows d rs = map snd (filter (\<lambda>(t, r). date_of t = d) rs)"

text \<open>The mean of column \<open>k\<close> in the bin of day \<open>d\<close>: missing when the bin holds no number.\<close>

definition day_mean :: "pandas \<Rightarrow> (timestamp \<times> cell list) list \<Rightarrow> date \<Rightarrow> nat \<Rightarrow> cell" where
  "day_mean lib rs d k =
     (let xs = numbers (map (\<lambda>r. cell_at r k) (day_rows d rs))
      in if xs = [] then NaN else Num (float_mean lib xs))"

text \<open>
  \<^verbatim>\<open>df.resample("D").mean()\<close>. A frame with no row comes back as it is. Otherwise
  \<^verbatim>\<open>mean\<close> raises TypeError when the frame has a text column, whatever that column
  still holds (pandas from 2.0 on), and else gives one bin for every calendar day
  from the first day of the index to the last with the mean of every column over
  the rows of that day.
\<close>

definition resample_mean :: "pandas \<Rightarrow> timestamp frame \<Rightarrow> error + date frame" where
  "resample_mean lib df =
     (let ds = map (date_of \<circ> fst) (rows df)
      in if rows df = [] then Inr (Frame (columns df) (dtypes df) [])
         else if Text \<in> set (dtypes df) then Inl TypeError
         else Inr (Frame (columns df) (map (\<lambda>t. Numeric) (dtypes df))
                (map (\<lambda>d. (d, map (day_mean lib (rows df) d) [0..<length (columns df)]))
                   [Min (set ds)..Max (set ds)])))"


subsection \<open>Lines 27 to 64: the run\<close>

text \<open>The messages the script shows, in the order it shows them.\<close>

datatype msg =
    Success nat nat
  | WarningNoDate
  | WarningSelect
  | ErrorNoData
  | WarningSparse

text \<open>
  How the pipeline ends: \<^verbatim>\<open>st.stop()\<close>, an exception that nothing catches, or the working
  table and the daily table handed to the statistics and the charts from line 65 on.
  On a table without a date column line 55 would raise as line 53 does
  (\<^verbatim>\<open>df.index.date\<close> on a default index); line 53 raises first.
\<close>

datatype outcome = Stop | Raise error | Analysis "timestamp frame" "date frame"

definition run :: "pandas \<Rightarrow> ui \<Rightarrow> csv \<Rightarrow> msg list \<times> outcome" where
  "run lib u file =
     (let df = loader file;
          m1 = [Success (length (rows df)) (length (columns df))];
          tbl = temporal_indexer lib df;
          m2 = m1 @ (case tbl of Degraded d \<Rightarrow> [WarningNoDate] | TimeIndexed c d \<Rightarrow> []);
          cands = pollutant_cols (table_columns tbl);
          selected_pollutants = multiselect (picks u) cands (take 3 cands)
      in if selected_pollutants = [] then (m2 @ [WarningSelect], Stop)
         else case index_min_date tbl of
           Inl e \<Rightarrow> (m2, Raise e)
         | Inr lo \<Rightarrow>
          (case date_input lo (start_date u) of
             Inl e \<Rightarrow> (m2, Raise e)
           | Inr first_day \<Rightarrow>
            (case index_max_date tbl of
               Inl e \<Rightarrow> (m2, Raise e)
             | Inr hi \<Rightarrow>
              (case date_input hi (end_date u) of
                 Inl e \<Rightarrow> (m2, Raise e)
               | Inr last_day \<Rightarrow>
                (case tbl of
                   Degraded d \<Rightarrow> (m2, Raise AttributeError)
                 | TimeIndexed c d \<Rightarrow>
                    (let ranged = date_filter first_day last_day d
                     in if empty ranged then (m2 @ [ErrorNoData], Stop)
                        else
                         (let work = dropna_all selected_pollutants
                                       (coerce lib selected_pollutants ranged)
                          in case resample_mean lib work of
                               Inl e \<Rightarrow> (m2, Raise e)
                             | Inr df_daily \<Rightarrow>
                                 (m2 @ (if length (rows df_daily) < 7
                                        then [WarningSparse] else []),
                                  Analysis work df_daily))))))))"

subsection \<open>Library behaviours and inputs for the examples\<close>

text \<open>
  Two argsorts that meet numpy's contract: one keeps equal keys in their original
  order, the other puts them in the opposite order.
\<close>

definition stable_argsort :: "timestamp list \<Rightarrow> nat list" where
  "stable_argsort ks = map snd (sort_key fst (zip ks [0..<length ks]))"


text \<open>
  A date parser and a number parser that know the tokens of the examples, and the
  exact mean, which is what float64 gives on the small whole numbers of the examples.
\<close>

definition demo_to_datetime :: "cell list \<Rightarrow> cell \<Rightarrow> timestamp option" where
  "demo_to_datetime col c =
     (case c of
        Str s \<Rightarrow> map_of [(''2024-01-01'', (738886, 0)), (''2024-01-02'', (738887, 0)),
                          (''2024-01-04'', (738889, 0))] s
      | _ \<Rightarrow> None)"

definition demo_to_numeric :: "string \<Rightarrow> real option" where
  "demo_to_numeric s = map_of [(''30'', 30), (''40'', 40), (''50'', 50)] s"

definition demo_mean :: "real list \<Rightarrow> real" where
  "demo_mean xs = sum_list xs / real (length xs)"

definition demo_lib :: pandas where
  "demo_lib = \<lparr>to_datetime = demo_to_datetime, argsort = stable_argsort,
                to_numeric = demo_to_numeric, float_mean = demo_mean\<rparr>"


text \<open>The table of the scenario in section 8 of the specification.\<close>

definition demo_csv :: csv where
  "demo_csv = Csv [''date'', ''pm25'', ''no2'']
     [[Str ''2024-01-01'', Num 50, Str ''30''],
      [Str ''2024-01-01'', Num 70, Str ''x''],
      [Str ''2024-01-02'', Num 60, Str ''40'']]"

text \<open>A table with a gap of one day, and a table whose only pollutant value is no number.\<close>

definition gap_csv :: csv where
  "gap_csv = Csv [''date'', ''pm25'', ''no2'']
     [[Str ''2024-01-02'', Num 50, Num 30],
      [Str ''2024-01-04'', Num 70, Num 40]]"

definition invalid_csv :: csv where
  "invalid_csv = Csv [''date'', ''pm25''] [[Str ''2024-01-01'', Str ''x'']]"


text \<open>A table whose date column holds no date.\<close>

definition undated_csv :: csv where
  "undated_csv = Csv [''date'', ''pm25''] [[Str ''unknown'', Num 5]]"

text \<open>
  A filtered table with a row whose selected cells are all invalid, and a column
  that is not selected.
\<close>

definition mixed_frame :: "timestamp frame" where
  "mixed_frame = Frame [''pm25'', ''no2'', ''site''] [Text, Text, Text]
     [((738886, 0), [Str ''50'', Str ''30'', Str ''A'']),
      ((738886, 0), [Str ''x'', Str ''x'', Str ''B'']),
      ((738887, 0), [NaN, Str ''40'', Str ''C''])]"

section \<open>Auxiliary facts\<close>

subsection \<open>Columns\<close>

lemma select_Cons [simp]:
  "select (b # bs) (x # xs) = (if b then x # select bs xs else select bs xs)"
  by (simp add: select_def)

lemma select_Nil [simp]: "select bs [] = []" "select [] xs = []"
  by (simp_all add: select_def)

lemma mangle_dupe_cols_next_free:
  "mangle_dupe_cols [''a'', ''a'', ''a.1''] = [''a'', ''a.2'', ''a.1'']"
  by code_simp

lemma set_select_duplicated:
  "set (select (map Not (duplicated seen cs)) cs) = set cs - set seen"
  by (induction cs arbitrary: seen) auto

lemma distinct_select_duplicated:
  "distinct (select (map Not (duplicated seen cs)) cs)"
  by (induction cs arbitrary: seen) (auto simp: set_select_duplicated)

lemma columns_drop_duplicated:
  "columns (drop_duplicated df) = select (map Not (duplicated [] (columns df))) (columns df)"
  by (simp add: drop_duplicated_def loc_columns_def)

lemma distinct_columns_loader: "distinct (columns (loader file))"
  by (simp add: loader_def columns_drop_duplicated distinct_select_duplicated)

lemma col_pos_less: "c \<in> set cs \<Longrightarrow> col_pos c cs < length cs"
  by (induction cs) auto

lemma nth_col_pos: "c \<in> set cs \<Longrightarrow> cs ! col_pos c cs = c"
  by (induction cs) auto

lemma col_pos_nth: "distinct cs \<Longrightarrow> k < length cs \<Longrightarrow> col_pos (cs ! k) cs = k"
  by (induction cs arbitrary: k) (auto simp: nth_Cons split: nat.splits)

lemma find_date_col_in: "find_date_col cs = Some c \<Longrightarrow> c \<in> set cs \<and> is_date_name c"
  by (auto simp: find_date_col_def find_Some_iff)

lemma set_drop_col: "set (drop_col k cs) \<subseteq> set cs"
  by (auto simp: drop_col_def dest: in_set_takeD in_set_dropD)

lemma distinct_drop_col:
  assumes "distinct cs"
  shows "distinct (drop_col k cs)"
proof -
  have "distinct (take k cs @ drop k cs)"
    using assms by simp
  then have "set (take k cs) \<inter> set (drop k cs) = {}"
    by (simp only: distinct_append)
  moreover have "set (drop (Suc k) cs) \<subseteq> set (drop k cs)"
    by (rule set_drop_subset_set_drop) simp
  ultimately show ?thesis
    using assms by (auto simp: drop_col_def)
qed

lemma not_in_drop_col:
  assumes "distinct cs" "c \<in> set cs"
  shows "c \<notin> set (drop_col (col_pos c cs) cs)"
proof -
  let ?k = "col_pos c cs"
  have k: "?k < length cs" and ck: "cs ! ?k = c"
    using assms by (simp_all add: col_pos_less nth_col_pos)
  have "cs = take ?k cs @ c # drop (Suc ?k) cs"
    using k ck by (metis id_take_nth_drop)
  then have "distinct (take ?k cs @ c # drop (Suc ?k) cs)"
    using assms(1) by simp
  then show ?thesis
    by (simp add: drop_col_def)
qed

lemma columns_set_index [simp]: "columns (set_index k cs ts xs) = drop_col k cs"
  by (simp add: set_index_def)

lemma temporal_indexer_TimeIndexed:
  assumes "temporal_indexer lib df = TimeIndexed c d"
  shows "find_date_col (columns df) = Some c \<and> columns d = drop_col (col_pos c (columns df)) (columns df)"
  using assms by (auto simp: temporal_indexer_def Let_def split: option.splits)

lemma temporal_indexer_Degraded:
  "temporal_indexer lib df = Degraded d \<longleftrightarrow> find_date_col (columns df) = None \<and> d = df"
  by (auto simp: temporal_indexer_def Let_def split: option.splits)

lemma set_multiselect: "set (multiselect chosen opts (take n opts)) \<subseteq> set opts"
  by (auto simp: multiselect_def split: option.splits dest: in_set_takeD)




lemma find_date_col_None: "find_date_col cs = None \<longleftrightarrow> (\<forall>c \<in> set cs. \<not> is_date_name c)"
  by (auto simp: find_date_col_def find_None_iff)



subsection \<open>The example argsorts meet the contract\<close>




subsection \<open>The run, case by case\<close>

lemma multiselect_no_options: "multiselect chosen [] [] = []"
  by (cases chosen) (simp_all add: multiselect_def)

lemma pollutant_cols_drop_col:
  assumes "pollutant_cols cs = []"
  shows "pollutant_cols (drop_col k cs) = []"
proof -
  from assms have "\<forall>c \<in> set cs. \<not> is_pollutant_name c"
    by (simp add: pollutant_cols_def filter_empty_conv)
  then have "\<forall>c \<in> set (drop_col k cs). \<not> is_pollutant_name c"
    using set_drop_col [of k cs] by blast
  then show ?thesis
    by (simp add: pollutant_cols_def filter_empty_conv)
qed

lemma run_Degraded:
  assumes "find_date_col (columns (loader file)) = None"
  shows "run lib u file =
     (if multiselect (picks u) (pollutant_cols (columns (loader file)))
            (take 3 (pollutant_cols (columns (loader file)))) = []
      then ([Success (length (rows (loader file))) (length (columns (loader file))),
             WarningNoDate, WarningSelect], Stop)
      else ([Success (length (rows (loader file))) (length (columns (loader file))),
             WarningNoDate], Raise AttributeError))"
proof -
  have "temporal_indexer lib (loader file) = Degraded (loader file)"
    using assms by (simp add: temporal_indexer_Degraded)
  then show ?thesis
    by (simp add: run_def Let_def)
qed

lemma run_TimeIndexed_no_selection:
  assumes "temporal_indexer lib (loader file) = TimeIndexed c d"
    and "multiselect (picks u) (pollutant_cols (columns d)) (take 3 (pollutant_cols (columns d))) = []"
  shows "run lib u file =
     ([Success (length (rows (loader file))) (length (columns (loader file))), WarningSelect], Stop)"
  using assms by (simp add: run_def Let_def)

lemma run_TimeIndexed_no_rows:
  assumes "temporal_indexer lib (loader file) = TimeIndexed c d"
    and "multiselect (picks u) (pollutant_cols (columns d)) (take 3 (pollutant_cols (columns d))) \<noteq> []"
    and "rows d = []"
  shows "run lib u file =
     ([Success (length (rows (loader file))) (length (columns (loader file)))], Raise ValueError)"
  using assms by (simp add: run_def Let_def date_input_def)

lemma run_TimeIndexed:
  assumes "temporal_indexer lib (loader file) = TimeIndexed c d"
    and "multiselect (picks u) (pollutant_cols (columns d)) (take 3 (pollutant_cols (columns d))) = sel"
    and "sel \<noteq> []" and "rows d \<noteq> []"
  shows "run lib u file =
     (let m = [Success (length (rows (loader file))) (length (columns (loader file)))];
          ranged = date_filter (start_date u) (end_date u) d
      in if empty ranged then (m @ [ErrorNoData], Stop)
         else (let work = dropna_all sel (coerce lib sel ranged)
               in case resample_mean lib work of
                    Inl e \<Rightarrow> (m, Raise e)
                  | Inr df_daily \<Rightarrow>
                      (m @ (if length (rows df_daily) < 7 then [WarningSparse] else []),
                       Analysis work df_daily)))"
  using assms by (simp add: run_def Let_def date_input_def split: sum.splits)

lemma range_error_stop:
  assumes "temporal_indexer lib (loader file) = TimeIndexed c d"
    and "multiselect (picks u) (pollutant_cols (columns d)) (take 3 (pollutant_cols (columns d))) \<noteq> []"
    and "rows d \<noteq> []"
    and "\<forall>(t, r) \<in> set (rows d). \<not> (start_date u \<le> date_of t \<and> date_of t \<le> end_date u)"
  shows "run lib u file =
     ([Success (length (rows (loader file))) (length (columns (loader file))), ErrorNoData], Stop)"
proof -
  have "rows (date_filter (start_date u) (end_date u) d) = []"
    using assms(4) by (auto simp: date_filter_def filter_empty_conv)
  then have "empty (date_filter (start_date u) (end_date u) d)"
    by (simp add: empty_def)
  with run_TimeIndexed [OF assms(1) refl assms(2,3)] show ?thesis
    by (simp add: Let_def)
qed

subsection \<open>Filtering, coercion and resampling\<close>

lemma count_list_filter:
  "count_list (filter P xs) x = (if P x then count_list xs x else 0)"
  by (induction xs) auto

lemma length_coerce_row: "length (coerce_row lib sel cs r) = length r"
  by (induction lib sel cs r rule: coerce_row.induct) simp_all

lemma nth_coerce_row:
  "k < length r \<Longrightarrow>
     coerce_row lib sel cs r ! k =
       (if k < length cs \<and> cs ! k \<in> set sel then to_numeric_cell lib (r ! k) else r ! k)"
proof (induction lib sel cs r arbitrary: k rule: coerce_row.induct)
  case (1 lib sel c cs v vs)
  then show ?case
    by (cases k) simp_all
qed simp_all

lemma cell_at_coerce_row:
  "cell_at (coerce_row lib sel cs r) k =
     (if k < length cs \<and> cs ! k \<in> set sel then to_numeric_cell lib (cell_at r k)
      else cell_at r k)"
  by (simp add: cell_at_def length_coerce_row nth_coerce_row)




lemma resample_mean_no_rows:
  "rows df = [] \<Longrightarrow> resample_mean lib df = Inr (Frame (columns df) (dtypes df) [])"
  by (simp add: resample_mean_def)

lemma resample_mean_text:
  "rows df \<noteq> [] \<Longrightarrow> Text \<in> set (dtypes df) \<Longrightarrow> resample_mean lib df = Inl TypeError"
  by (simp add: resample_mean_def)


lemma days_of_daily:
  assumes "resample_mean lib df = Inr daily"
  shows "map fst (rows daily) =
       (if rows df = [] then []
        else [Min (set (map (date_of \<circ> fst) (rows df)))..Max (set (map (date_of \<circ> fst) (rows df)))])"
  using assms by (auto simp: resample_mean_def Let_def comp_def split: if_splits)

lemma first_day_le_last_day:
  assumes "rs \<noteq> []"
  shows "Min (set (map (date_of \<circ> fst) rs)) \<le> Max (set (map (date_of \<circ> fst) rs))"
proof -
  have "finite (set (map (date_of \<circ> fst) rs))" "set (map (date_of \<circ> fst) rs) \<noteq> {}"
    using assms by simp_all
  then show ?thesis
    by (intro Min_le Max_in)
qed

lemma daily_empty_iff:
  assumes "resample_mean lib df = Inr daily"
  shows "rows daily = [] \<longleftrightarrow> rows df = []"
proof (cases "rows df = []")
  case True
  then have "map fst (rows daily) = []"
    by (simp add: days_of_daily [OF assms])
  with True show ?thesis
    by simp
next
  case False
  let ?lo = "Min (set (map (date_of \<circ> fst) (rows df)))"
  let ?hi = "Max (set (map (date_of \<circ> fst) (rows df)))"
  from False have "?lo \<le> ?hi"
    by (rule first_day_le_last_day)
  then have "[?lo..?hi] \<noteq> []"
    by simp
  moreover have "map fst (rows daily) = [?lo..?hi]"
    using False by (simp only: days_of_daily [OF assms] if_False)
  ultimately have "rows daily \<noteq> []"
    by (metis map_is_Nil_conv)
  with False show ?thesis
    by simp
qed

lemma distinct_days_of_daily:
  assumes "resample_mean lib df = Inr daily"
  shows "distinct (map fst (rows daily))"
  by (simp add: days_of_daily [OF assms])



section \<open>The claims\<close>




text \<open>
  Claim C2, amended. The range filter returns exactly the rows whose date lies between
  the start and the end date, both included, each as often as in the input and in the
  input's order; it leaves the columns as they are, selected or not.
\<close>

theorem date_filter_rows_and_columns:
  "((t, r) \<in> set (rows (date_filter s e df)) \<longleftrightarrow>
      (t, r) \<in> set (rows df) \<and> s \<le> date_of t \<and> date_of t \<le> e)
   \<and> count_list (rows (date_filter s e df)) (t, r) =
       (if s \<le> date_of t \<and> date_of t \<le> e then count_list (rows df) (t, r) else 0)
   \<and> subseq (rows (date_filter s e df)) (rows df)
   \<and> columns (date_filter s e df) = columns df
   \<and> dtypes (date_filter s e df) = dtypes df"
  by (auto simp: date_filter_def count_list_filter)

text \<open>
  Claim C2 as stated fails: with only pm25 selected, the column no2 is still in the
  filtered table, and in the working table and the daily table after it.
\<close>

theorem selection_filter_counterexample:
  "multiselect (Some [''pm25'']) (pollutant_cols [''pm25'', ''no2''])
       (take 3 (pollutant_cols [''pm25'', ''no2''])) = [''pm25'']
   \<and> date_filter 738886 738890
        (Frame [''pm25'', ''no2''] [Numeric, Numeric]
           [((738887, 0), [Num 50, Num 30]), ((738889, 0), [Num 70, Num 40])]) =
       Frame [''pm25'', ''no2''] [Numeric, Numeric]
         [((738887, 0), [Num 50, Num 30]), ((738889, 0), [Num 70, Num 40])]
   \<and> run demo_lib \<lparr>picks = Some [''pm25''], start_date = 738886, end_date = 738890\<rparr> gap_csv =
       ([Success 2 3, WarningSparse],
        Analysis
          (Frame [''pm25'', ''no2''] [Numeric, Numeric]
             [((738887, 0), [Num 50, Num 30]), ((738889, 0), [Num 70, Num 40])])
          (Frame [''pm25'', ''no2''] [Numeric, Numeric]
             [(738887, [Num 50, Num 30]), (738888, [NaN, NaN]), (738889, [Num 70, Num 40])]))"
  by code_simp




text \<open>
  Claim C4. Coercion keeps the columns, the rows and their labels; in every row a cell
  under a selected label becomes its numeric reading, a string that reads as no number
  becoming the missing value and a number staying itself, and a cell under any other
  label is unchanged. The gate then keeps exactly the rows in which some selected
  cell is not missing.
\<close>

theorem coercion_and_validity_gate:
  assumes "n < length (rows df)"
  shows "columns (coerce lib sel df) = columns df
     \<and> length (rows (coerce lib sel df)) = length (rows df)
     \<and> fst (rows (coerce lib sel df) ! n) = fst (rows df ! n)
     \<and> (\<forall>k. cell_at (snd (rows (coerce lib sel df) ! n)) k =
            (if k < length (columns df) \<and> columns df ! k \<in> set sel
             then to_numeric_cell lib (cell_at (snd (rows df ! n)) k)
             else cell_at (snd (rows df ! n)) k))
     \<and> (\<forall>s. to_numeric lib s = None \<longrightarrow> to_numeric_cell lib (Str s) = NaN)
     \<and> (\<forall>x. to_numeric_cell lib (Num x) = Num x)
     \<and> rows (dropna_all sel (coerce lib sel df)) =
         filter (\<lambda>(i, r). \<exists>c \<in> set sel. cell_at r (col_pos c (columns df)) \<noteq> NaN)
           (rows (coerce lib sel df))
     \<and> (rows (coerce lib sel df) ! n \<in> set (rows (dropna_all sel (coerce lib sel df))) \<longleftrightarrow>
          (\<exists>c \<in> set sel.
             cell_at (snd (rows (coerce lib sel df) ! n)) (col_pos c (columns df)) \<noteq> NaN))"
proof -
  obtain i r where ir: "rows df ! n = (i, r)"
    by (cases "rows df ! n")
  have row: "rows (coerce lib sel df) ! n = (i, coerce_row lib sel (columns df) r)"
    using assms ir by (simp add: coerce_def)
  have mem: "rows (coerce lib sel df) ! n \<in> set (rows (coerce lib sel df))"
    using assms by (simp add: coerce_def)
  have gate: "rows (dropna_all sel (coerce lib sel df)) =
         filter (\<lambda>(i, r). \<exists>c \<in> set sel. cell_at r (col_pos c (columns df)) \<noteq> NaN)
           (rows (coerce lib sel df))"
    by (simp add: dropna_all_def coerce_def)
  have "rows (coerce lib sel df) ! n \<in> set (rows (dropna_all sel (coerce lib sel df))) \<longleftrightarrow>
          (\<exists>c \<in> set sel.
             cell_at (snd (rows (coerce lib sel df) ! n)) (col_pos c (columns df)) \<noteq> NaN)"
    unfolding gate using mem by (simp add: row)
  moreover have "columns (coerce lib sel df) = columns df"
    and "length (rows (coerce lib sel df)) = length (rows df)"
    by (simp_all add: coerce_def)
  moreover have "\<forall>k. cell_at (snd (rows (coerce lib sel df) ! n)) k =
            (if k < length (columns df) \<and> columns df ! k \<in> set sel
             then to_numeric_cell lib (cell_at (snd (rows df ! n)) k)
             else cell_at (snd (rows df ! n)) k)"
    by (simp add: row ir cell_at_coerce_row)
  moreover have "fst (rows (coerce lib sel df) ! n) = fst (rows df ! n)"
    by (simp add: row ir)
  ultimately show ?thesis
    using gate by simp
qed

theorem coercion_and_validity_gate_witness:
  "1 < length (rows mixed_frame)
   \<and> coerce demo_lib [''pm25'', ''no2''] mixed_frame =
       Frame [''pm25'', ''no2'', ''site''] [Numeric, Numeric, Text]
         [((738886, 0), [Num 50, Num 30, Str ''A'']),
          ((738886, 0), [NaN, NaN, Str ''B'']),
          ((738887, 0), [NaN, Num 40, Str ''C''])]
   \<and> rows (dropna_all [''pm25'', ''no2''] (coerce demo_lib [''pm25'', ''no2''] mixed_frame)) =
       [((738886, 0), [Num 50, Num 30, Str ''A'']), ((738887, 0), [NaN, Num 40, Str ''C''])]"
proof -
  let ?sel = "[''pm25'', ''no2'']"
  have h: "1 < length (rows mixed_frame)"
    by code_simp
  have c: "coerce demo_lib ?sel mixed_frame =
       Frame [''pm25'', ''no2'', ''site''] [Numeric, Numeric, Text]
         [((738886, 0), [Num 50, Num 30, Str ''A'']),
          ((738886, 0), [NaN, NaN, Str ''B'']),
          ((738887, 0), [NaN, Num 40, Str ''C''])]"
    by code_simp
  from coercion_and_validity_gate [OF h, of demo_lib ?sel]
  have "rows (dropna_all ?sel (coerce demo_lib ?sel mixed_frame)) =
         filter (\<lambda>(i, r). \<exists>c \<in> set ?sel. cell_at r (col_pos c (columns mixed_frame)) \<noteq> NaN)
           (rows (coerce demo_lib ?sel mixed_frame))"
    by (elim conjE)
  also have "\<dots> = [((738886, 0), [Num 50, Num 30, Str ''A'']), ((738887, 0), [NaN, Num 40, Str ''C''])]"
    by code_simp
  finally show ?thesis
    using h c by simp
qed

text \<open>
  Claim C5 fails on the code. With no date column the script warns and goes on, and
  then stops at the empty selection or, as soon as a pollutant is selected, raises
  AttributeError at line 53: the minimum of the default index has no \<^verbatim>\<open>date\<close>.
  The run never reaches the range filter or the resampler.
\<close>

theorem degraded_run_fails:
  assumes "\<forall>c \<in> set (columns (loader file)). \<not> is_date_name c"
  shows "run lib u file =
     (if multiselect (picks u) (pollutant_cols (columns (loader file)))
            (take 3 (pollutant_cols (columns (loader file)))) = []
      then ([Success (length (rows (loader file))) (length (columns (loader file))),
             WarningNoDate, WarningSelect], Stop)
      else ([Success (length (rows (loader file))) (length (columns (loader file))),
             WarningNoDate], Raise AttributeError))"
  using assms by (simp add: run_Degraded find_date_col_None)

theorem degraded_run_fails_witness:
  "find_date_col (columns (loader (Csv [''PM2.5''] [[Num 10], [Num 20]]))) = None
   \<and> run demo_lib \<lparr>picks = None, start_date = 738886, end_date = 738887\<rparr>
         (Csv [''PM2.5''] [[Num 10], [Num 20]]) =
       ([Success 2 1, WarningNoDate], Raise AttributeError)"
proof -
  have h: "\<forall>c \<in> set (columns (loader (Csv [''PM2.5''] [[Num 10], [Num 20]]))). \<not> is_date_name c"
    by code_simp
  have "run demo_lib \<lparr>picks = None, start_date = 738886, end_date = 738887\<rparr>
         (Csv [''PM2.5''] [[Num 10], [Num 20]]) =
       ([Success 2 1, WarningNoDate], Raise AttributeError)"
    unfolding degraded_run_fails [OF h] by code_simp
  moreover have "find_date_col (columns (loader (Csv [''PM2.5''] [[Num 10], [Num 20]]))) = None"
    by code_simp
  ultimately show ?thesis
    by simp
qed

text \<open>
  Claim C6 fails on the code. When the date column holds no value that parses, the
  indexed table has no row, so no row's date lies in any interval; line 53 then passes
  the minimum of the empty index, NaT, to the date input, which raises ValueError.
  The run ends there: the range filter and the error message of lines 56 to 58 are
  never reached.
\<close>

theorem unparsed_dates_raise:
  assumes "temporal_indexer lib (loader file) = TimeIndexed c d"
    and "rows d = []"
    and "multiselect (picks u) (pollutant_cols (columns d)) (take 3 (pollutant_cols (columns d))) \<noteq> []"
  shows "run lib u file =
     ([Success (length (rows (loader file))) (length (columns (loader file)))], Raise ValueError)"
  using assms(1,3,2) by (rule run_TimeIndexed_no_rows)

theorem unparsed_dates_raise_witness:
  "temporal_indexer demo_lib (loader undated_csv) =
       TimeIndexed ''date'' (Frame [''pm25''] [Numeric] [])
   \<and> multiselect None (pollutant_cols [''pm25'']) (take 3 (pollutant_cols [''pm25''])) = [''pm25'']
   \<and> run demo_lib \<lparr>picks = None, start_date = 738886, end_date = 738887\<rparr> undated_csv =
       ([Success 1 2], Raise ValueError)"
proof -
  let ?u = "\<lparr>picks = None, start_date = 738886, end_date = 738887\<rparr>"
  let ?d = "Frame [''pm25''] [Numeric] [] :: timestamp frame"
  have e: "temporal_indexer demo_lib (loader undated_csv) = TimeIndexed ''date'' ?d"
    by code_simp
  have n: "rows ?d = []"
    by simp
  have s: "multiselect None (pollutant_cols [''pm25'']) (take 3 (pollutant_cols [''pm25''])) = [''pm25'']"
    by code_simp
  have s': "multiselect (picks ?u) (pollutant_cols (columns ?d))
         (take 3 (pollutant_cols (columns ?d))) \<noteq> []"
    using s by simp
  have "run demo_lib ?u undated_csv = ([Success 1 2], Raise ValueError)"
    unfolding unparsed_dates_raise [OF e n s'] by code_simp
  with e s show ?thesis
    by simp
qed

text \<open>
  Claim C7 fails on the code. Line 29 drops the columns whose name repeats an earlier
  one, but \<^verbatim>\<open>read_csv\<close> has already renamed the later occurrences on line 28, so
  no name repeats and nothing is dropped: a header with PM2.5 twice gives a table
  with the columns PM2.5 and PM2.5.1, each with its own data.
\<close>

theorem loader_keeps_renamed_duplicate:
  "loader (Csv [''Date'', ''PM2.5'', ''PM2.5''] [[Str ''2024-01-01'', Num 1, Num 2]]) =
     Frame [''Date'', ''PM2.5'', ''PM2.5.1''] [Text, Numeric, Numeric]
       [(0, [Str ''2024-01-01'', Num 1, Num 2])]"
  by code_simp

text \<open>
  Claim C8. When no column of the loaded table matches the pollutant heuristic, the
  multiselect has no option to return, and the run shows the warning of line 51 and
  stops at line 52, before the date inputs and the range filter.
\<close>

theorem no_candidates_stop:
  assumes "pollutant_cols (columns (loader file)) = []"
  shows "run lib u file =
     (Success (length (rows (loader file))) (length (columns (loader file)))
        # (if find_date_col (columns (loader file)) = None then [WarningNoDate] else [])
        @ [WarningSelect], Stop)"
proof (cases "temporal_indexer lib (loader file)")
  case (Degraded d)
  then have f: "find_date_col (columns (loader file)) = None"
    by (simp add: temporal_indexer_Degraded)
  show ?thesis
    by (simp add: run_Degraded [OF f] f assms multiselect_no_options)
next
  case (TimeIndexed c d)
  then have f: "find_date_col (columns (loader file)) = Some c"
    and cd: "columns d = drop_col (col_pos c (columns (loader file))) (columns (loader file))"
    by (simp_all add: temporal_indexer_TimeIndexed)
  have "pollutant_cols (columns d) = []"
    unfolding cd using assms by (rule pollutant_cols_drop_col)
  then have "multiselect (picks u) (pollutant_cols (columns d)) (take 3 (pollutant_cols (columns d))) = []"
    by (simp add: multiselect_no_options)
  from run_TimeIndexed_no_selection [OF TimeIndexed this] f show ?thesis
    by simp
qed

theorem no_candidates_stop_witness:
  "pollutant_cols (columns (loader (Csv [''date'', ''humidity''] [[Str ''2024-01-01'', Num 5]]))) = []
   \<and> run demo_lib \<lparr>picks = Some [''humidity''], start_date = 738886, end_date = 738887\<rparr>
         (Csv [''date'', ''humidity''] [[Str ''2024-01-01'', Num 5]]) =
       ([Success 1 2, WarningSelect], Stop)"
proof -
  have h: "pollutant_cols (columns (loader (Csv [''date'', ''humidity''] [[Str ''2024-01-01'', Num 5]]))) = []"
    by code_simp
  have "run demo_lib \<lparr>picks = Some [''humidity''], start_date = 738886, end_date = 738887\<rparr>
         (Csv [''date'', ''humidity''] [[Str ''2024-01-01'', Num 5]]) =
       ([Success 1 2, WarningSelect], Stop)"
    unfolding no_candidates_stop [OF h] by code_simp
  with h show ?thesis
    by simp
qed

text \<open>
  Claim C9, amended. For every run in which line 62 returns a daily table, the
  sparse-range warning is shown exactly when that table has fewer than 7 rows, one
  row per day and no day twice, and the run goes on to the analysis with the working
  table and that daily table; a run that shows the warning always goes on to the
  analysis. The daily table is empty exactly when no row survives the validity gate.
\<close>

theorem sparse_warning:
  assumes "run lib u file = (msgs, out)"
  shows "(WarningSparse \<in> set msgs \<longrightarrow> (\<exists>work daily. out = Analysis work daily))
     \<and> (\<forall>work daily. out = Analysis work daily \<longrightarrow>
           resample_mean lib work = Inr daily
           \<and> (WarningSparse \<in> set msgs \<longleftrightarrow> length (rows daily) < 7)
           \<and> distinct (map fst (rows daily))
           \<and> (rows daily = [] \<longleftrightarrow> rows work = []))
     \<and> (\<forall>c d daily.
           (let sel = multiselect (picks u) (pollutant_cols (columns d))
                        (take 3 (pollutant_cols (columns d)));
                ranged = date_filter (start_date u) (end_date u) d;
                work = dropna_all sel (coerce lib sel ranged)
            in temporal_indexer lib (loader file) = TimeIndexed c d \<and> sel \<noteq> []
               \<and> rows d \<noteq> [] \<and> \<not> empty ranged \<and> resample_mean lib work = Inr daily
               \<longrightarrow> out = Analysis work daily))"
proof (cases "temporal_indexer lib (loader file)")
  case (Degraded d)
  then have "find_date_col (columns (loader file)) = None"
    by (simp add: temporal_indexer_Degraded)
  from run_Degraded [OF this, of lib u] assms Degraded show ?thesis
    by (auto split: if_splits)
next
  case (TimeIndexed c d)
  let ?sel = "multiselect (picks u) (pollutant_cols (columns d)) (take 3 (pollutant_cols (columns d)))"
  show ?thesis
  proof (cases "?sel = []")
    case True
    from run_TimeIndexed_no_selection [OF TimeIndexed True] assms TimeIndexed True show ?thesis
      by (auto simp: Let_def)
  next
    case False
    show ?thesis
    proof (cases "rows d = []")
      case True
      from run_TimeIndexed_no_rows [OF TimeIndexed False True] assms TimeIndexed True show ?thesis
        by (auto simp: Let_def)
    next
      case rows: False
      let ?ranged = "date_filter (start_date u) (end_date u) d"
      let ?work = "dropna_all ?sel (coerce lib ?sel ?ranged)"
      note r = run_TimeIndexed [OF TimeIndexed refl False rows]
      show ?thesis
      proof (cases "empty ?ranged")
        case True
        with r assms TimeIndexed show ?thesis
          by (auto simp: Let_def)
      next
        case ne: False
        show ?thesis
        proof (cases "resample_mean lib ?work")
          case (Inl e)
          with r ne assms TimeIndexed show ?thesis
            by (auto simp: Let_def)
        next
          case (Inr daily)
          with r ne assms
          have m: "msgs = [Success (length (rows (loader file))) (length (columns (loader file)))]
                     @ (if length (rows daily) < 7 then [WarningSparse] else [])"
            and o: "out = Analysis ?work daily"
            by (simp_all add: Let_def)
          from m have w: "WarningSparse \<in> set msgs \<longleftrightarrow> length (rows daily) < 7"
            by simp
          have 1: "WarningSparse \<in> set msgs \<longrightarrow> (\<exists>work daily. out = Analysis work daily)"
            using o by simp
          have 2: "\<forall>work daily. out = Analysis work daily \<longrightarrow>
                     resample_mean lib work = Inr daily
                     \<and> (WarningSparse \<in> set msgs \<longleftrightarrow> length (rows daily) < 7)
                     \<and> distinct (map fst (rows daily))
                     \<and> (rows daily = [] \<longleftrightarrow> rows work = [])"
            using o w Inr daily_empty_iff [OF Inr] distinct_days_of_daily [OF Inr] by simp
          have 3: "\<forall>c d daily.
           (let sel = multiselect (picks u) (pollutant_cols (columns d))
                        (take 3 (pollutant_cols (columns d)));
                ranged = date_filter (start_date u) (end_date u) d;
                work = dropna_all sel (coerce lib sel ranged)
            in temporal_indexer lib (loader file) = TimeIndexed c d \<and> sel \<noteq> []
               \<and> rows d \<noteq> [] \<and> \<not> empty ranged \<and> resample_mean lib work = Inr daily
               \<longrightarrow> out = Analysis work daily)"
            using o Inr TimeIndexed by (auto simp: Let_def)
          from 1 2 3 show ?thesis
            by (intro conjI)
        qed
      qed
    qed
  qed
qed

theorem sparse_warning_witness:
  "run demo_lib \<lparr>picks = None, start_date = 738886, end_date = 738887\<rparr> demo_csv =
     ([Success 3 3, WarningSparse],
      Analysis
        (Frame [''pm25'', ''no2''] [Numeric, Numeric]
           [((738886, 0), [Num 50, Num 30]), ((738886, 0), [Num 70, NaN]),
            ((738887, 0), [Num 60, Num 40])])
        (Frame [''pm25'', ''no2''] [Numeric, Numeric]
           [(738886, [Num 60, Num 30]), (738887, [Num 60, Num 40])]))
   \<and> (WarningSparse \<in> set [Success 3 3, WarningSparse] \<longleftrightarrow>
        length (rows (Frame [''pm25'', ''no2''] [Numeric, Numeric]
                  [(738886 :: date, [Num 60, Num 30]), (738887, [Num 60, Num 40])])) < 7)"
proof -
  have e: "run demo_lib \<lparr>picks = None, start_date = 738886, end_date = 738887\<rparr> demo_csv =
     ([Success 3 3, WarningSparse],
      Analysis
        (Frame [''pm25'', ''no2''] [Numeric, Numeric]
           [((738886, 0), [Num 50, Num 30]), ((738886, 0), [Num 70, NaN]),
            ((738887, 0), [Num 60, Num 40])])
        (Frame [''pm25'', ''no2''] [Numeric, Numeric]
           [(738886, [Num 60, Num 30]), (738887, [Num 60, Num 40])]))"
    by code_simp
  from sparse_warning [OF e] have "WarningSparse \<in> set [Success 3 3, WarningSparse] \<longleftrightarrow>
        length (rows (Frame [''pm25'', ''no2''] [Numeric, Numeric]
                  [(738886 :: date, [Num 60, Num 30]), (738887, [Num 60, Num 40])])) < 7"
    by blast
  with e show ?thesis
    by (simp only: simp_thms)
qed

text \<open>
  Claim C9 as stated fails: when the only row has no valid selected value, the warning
  is shown and the run goes on, but the daily table it goes on with is empty.
\<close>

theorem sparse_warning_counterexample:
  "run demo_lib \<lparr>picks = None, start_date = 738886, end_date = 738887\<rparr> invalid_csv =
     ([Success 1 2, WarningSparse],
      Analysis (Frame [''pm25''] [Numeric] []) (Frame [''pm25''] [Numeric] []))"
  by code_simp

text \<open>
  Claim C10. The detected date column has become the index before the candidates are
  computed: it is neither among the candidate pollutants nor among the pollutants the
  multiselect can return, whatever its name contains.
\<close>

theorem date_col_not_candidate:
  assumes "temporal_indexer lib (loader file) = TimeIndexed c d"
  shows "c \<notin> set (pollutant_cols (columns d)) \<and>
         c \<notin> set (multiselect chosen (pollutant_cols (columns d)) (take 3 (pollutant_cols (columns d))))"
proof -
  let ?cs = "columns (loader file)"
  from assms have f: "find_date_col ?cs = Some c" and cd: "columns d = drop_col (col_pos c ?cs) ?cs"
    by (simp_all add: temporal_indexer_TimeIndexed)
  have "c \<in> set ?cs" using f by (simp add: find_date_col_in)
  then have "c \<notin> set (columns d)"
    unfolding cd by (rule not_in_drop_col [OF distinct_columns_loader])
  then have 1: "c \<notin> set (pollutant_cols (columns d))"
    by (simp add: pollutant_cols_def)
  with set_multiselect [of chosen "pollutant_cols (columns d)" 3] show ?thesis
    by blast
qed

theorem date_col_not_candidate_witness:
  "is_pollutant_name ''Record_Date''
   \<and> temporal_indexer demo_lib
        (loader (Csv [''Record_Date'', ''PM2.5''] [[Str ''2024-01-01'', Num 50]])) =
       TimeIndexed ''Record_Date'' (Frame [''PM2.5''] [Numeric] [((738886, 0), [Num 50])])
   \<and> ''Record_Date'' \<notin> set (pollutant_cols [''PM2.5''])
   \<and> ''Record_Date'' \<notin>
       set (multiselect (Some [''Record_Date'']) (pollutant_cols [''PM2.5''])
              (take 3 (pollutant_cols [''PM2.5''])))"
proof -
  have p: "is_pollutant_name ''Record_Date''"
    by code_simp
  have e: "temporal_indexer demo_lib
        (loader (Csv [''Record_Date'', ''PM2.5''] [[Str ''2024-01-01'', Num 50]])) =
       TimeIndexed ''Record_Date'' (Frame [''PM2.5''] [Numeric] [((738886, 0), [Num 50])])"
    by code_simp
  from date_col_not_candidate [OF e, of "Some [''Record_Date'']"] p e show ?thesis
    by simp
qed

end
